theory Spec2Isabelle
  imports Complex_Main
begin

section \<open>Python values and exceptions\<close>

text \<open>
  The hyperparameters of \<^verbatim>\<open>modl/classification/fmri.py\<close> are dynamically typed: the
  regularisation \<^verbatim>\<open>C\<close> is a number or a sweep of numbers, \<^verbatim>\<open>max_iter\<close> is an integer
  that the constructor of the classifier wraps in a tuple, \<^verbatim>\<open>early_tol\<close> is a number or
  \<^verbatim>\<open>None\<close>. Floats are modelled as reals: no rounding, and no infinity (a product of
  floats beyond the largest float is \<^verbatim>\<open>inf\<close> in the code and a real here). Integers are
  unbounded; what raises is their conversion to a float.
\<close>

datatype pyval =
    PyNone
  | PyInt int
  | PyFloat real
  | PyTuple "pyval list"
  | PyList "pyval list"
  | NdArray "real list"

datatype py_error =
    AttributeError string
  | TypeError string
  | UnboundLocalError string
  | IndexError string
  | AssertionError
  | ValueError string
  | LinAlgError string
  | OverflowError string

text \<open>\<^verbatim>\<open>hasattr(v, '__iter__')\<close>: numbers and \<^verbatim>\<open>None\<close> have no iterator.\<close>

fun hasattr_iter :: "pyval \<Rightarrow> bool" where
  "hasattr_iter PyNone = False"
| "hasattr_iter (PyInt i) = False"
| "hasattr_iter (PyFloat x) = False"
| "hasattr_iter (PyTuple vs) = True"
| "hasattr_iter (PyList vs) = True"
| "hasattr_iter (NdArray xs) = True"

text \<open>
  An integer converts to the nearest float. The largest float is \<open>2 ^ 1024 - 2 ^ 971\<close>;
  from \<open>2 ^ 1024 - 2 ^ 970\<close> on the nearest float would lie beyond it, and the conversion
  raises \<^verbatim>\<open>OverflowError\<close>.
\<close>

definition float_overflow_bound :: int where
  "float_overflow_bound = 2 ^ 1024 - 2 ^ 970"

text \<open>
  \<^verbatim>\<open>v * c\<close> for a float literal \<open>c\<close> (here \<^verbatim>\<open>tol * 1e2\<close>): an integer \<open>v\<close> is converted
  to a float first.
\<close>

fun py_mul_float :: "pyval \<Rightarrow> real \<Rightarrow> py_error + pyval" where
  "py_mul_float (PyInt i) c =
     (if \<bar>i\<bar> < float_overflow_bound then Inr (PyFloat (real_of_int i * c))
      else Inl (OverflowError ''int too large to convert to float''))"
| "py_mul_float (PyFloat x) c = Inr (PyFloat (x * c))"
| "py_mul_float (NdArray xs) c = Inr (NdArray (map (\<lambda>x. x * c) xs))"
| "py_mul_float PyNone c = Inl (TypeError ''unsupported operand type(s) for *'')"
| "py_mul_float (PyTuple vs) c = Inl (TypeError ''can't multiply sequence by non-int'')"
| "py_mul_float (PyList vs) c = Inl (TypeError ''can't multiply sequence by non-int'')"

text \<open>
  \<^verbatim>\<open>v / d\<close> for a non-zero integer literal \<open>d\<close> (here \<^verbatim>\<open>max_iter / 10\<close>), true division.
  The quotient of two integers is the float nearest to the exact quotient, and raises
  \<^verbatim>\<open>OverflowError\<close> when that one is beyond the largest float.
\<close>

fun py_truediv_int :: "pyval \<Rightarrow> int \<Rightarrow> py_error + pyval" where
  "py_truediv_int (PyInt i) d =
     (if \<bar>i\<bar> < \<bar>d\<bar> * float_overflow_bound
      then Inr (PyFloat (real_of_int i / real_of_int d))
      else Inl (OverflowError ''integer division result too large for a float''))"
| "py_truediv_int (PyFloat x) d = Inr (PyFloat (x / real_of_int d))"
| "py_truediv_int (NdArray xs) d = Inr (NdArray (map (\<lambda>x. x / real_of_int d) xs))"
| "py_truediv_int PyNone d = Inl (TypeError ''unsupported operand type(s) for /'')"
| "py_truediv_int (PyTuple vs) d = Inl (TypeError ''unsupported operand type(s) for /'')"
| "py_truediv_int (PyList vs) d = Inl (TypeError ''unsupported operand type(s) for /'')"

text \<open>The numeric value of a Python number, if the value is one.\<close>

fun py_num :: "pyval \<Rightarrow> real option" where
  "py_num (PyInt i) = Some (real_of_int i)"
| "py_num (PyFloat x) = Some x"
| "py_num v = None"

section \<open>Arrays\<close>

text \<open>
  A two-dimensional \<^verbatim>\<open>numpy\<close> array: its shape and its cells. Cells outside the shape do
  not exist; functions that build arrays put \<open>0\<close> there.
\<close>

record ndarray =
  shape0 :: nat
  shape1 :: nat
  cell :: "nat \<Rightarrow> nat \<Rightarrow> real"

section \<open>Estimators of scikit-learn, as the source constructs them\<close>

record LogisticRegression_params =
  lr_multi_class :: string
  lr_C :: pyval
  lr_solver :: string
  lr_tol :: pyval
  lr_max_iter :: pyval
  lr_verbose :: pyval
  lr_random_state :: pyval

datatype estimator =
    LogisticRegression LogisticRegression_params
  | StandardScaler
  | Pipeline "(string \<times> estimator) list"

datatype cv_splitter = ShuffleSplit real

record GridSearchCV =
  gs_estimator :: estimator
  gs_param_grid :: "(string \<times> pyval) list"
  gs_cv :: cv_splitter
  gs_refit :: bool
  gs_n_jobs :: pyval

text \<open>
  The methods of the library that the source calls. What they compute is not part of this
  repository, so they are parameters of the model: every theorem holds for every behaviour
  of the library. \<open>'m\<close> is a fitted estimator, \<open>'le\<close> a fitted label encoder.
  \<open>GridSearchCV_fit\<close> stands for \<^verbatim>\<open>grid_lr.fit(X, y)\<close> followed by the read of
  \<^verbatim>\<open>grid_lr.best_params_\<close>.
\<close>

record ('m, 'le) sklearn =
  GridSearchCV_fit :: "GridSearchCV \<Rightarrow> ndarray \<Rightarrow> int list \<Rightarrow> py_error + (string \<times> pyval) list"
  set_params :: "estimator \<Rightarrow> (string \<times> pyval) list \<Rightarrow> py_error + estimator"
  estimator_fit :: "estimator \<Rightarrow> ndarray \<Rightarrow> int list \<Rightarrow> py_error + 'm"
  estimator_predict :: "'m \<Rightarrow> ndarray \<Rightarrow> py_error + int list"
  LabelEncoder_fit_transform :: "string list \<Rightarrow> py_error + ('le \<times> int list)"
  LabelEncoder_inverse_transform :: "'le \<Rightarrow> int list \<Rightarrow> py_error + string list"

text \<open>The calls into the library made by one run, in order.\<close>

datatype event =
    Call_GridSearchCV_fit GridSearchCV ndarray "int list"
  | Call_set_params estimator "(string \<times> pyval) list"
  | Call_fit estimator ndarray "int list"

section \<open>\<^verbatim>\<open>_logistic_regression\<close> (fmri.py, lines 91 to 128)\<close>

record lr_kwargs =
  X_train :: ndarray
  y_train :: "int list"
  kw_standardize :: bool
  kw_C :: pyval
  kw_tol :: pyval
  kw_max_iter :: pyval
  kw_early_tol :: pyval
  kw_early_max_iter :: pyval
  kw_test_size :: real
  kw_n_jobs :: pyval
  kw_verbose :: pyval
  kw_random_state :: pyval

text \<open>The defaults of the signature.\<close>

definition default_kwargs :: "ndarray \<Rightarrow> int list \<Rightarrow> lr_kwargs" where
  "default_kwargs X y =
     \<lparr>X_train = X, y_train = y, kw_standardize = False, kw_C = PyInt 1,
      kw_tol = PyFloat (1 / 10 ^ 7), kw_max_iter = PyInt 1000, kw_early_tol = PyNone,
      kw_early_max_iter = PyNone, kw_test_size = 1 / 10, kw_n_jobs = PyInt 1,
      kw_verbose = PyInt 0, kw_random_state = PyNone\<rparr>"

text \<open>Lines 103 to 106: the tolerance and the iteration bound of the search phase.\<close>

definition early_tol_of :: "lr_kwargs \<Rightarrow> py_error + pyval" where
  "early_tol_of kw =
     (if kw_early_tol kw = PyNone then py_mul_float (kw_tol kw) 100 else Inr (kw_early_tol kw))"

definition early_max_iter_of :: "lr_kwargs \<Rightarrow> py_error + pyval" where
  "early_max_iter_of kw =
     (if kw_early_max_iter kw = PyNone then py_truediv_int (kw_max_iter kw) 10
      else Inr (kw_early_max_iter kw))"

text \<open>Lines 108 to 115: the estimator, bare or behind a standard scaler.\<close>

definition make_lr :: "lr_kwargs \<Rightarrow> pyval \<Rightarrow> pyval \<Rightarrow> estimator" where
  "make_lr kw etol emax =
     (let lr = LogisticRegression
            \<lparr>lr_multi_class = ''multinomial'', lr_C = kw_C kw, lr_solver = ''sag'',
             lr_tol = etol, lr_max_iter = emax, lr_verbose = kw_verbose kw,
             lr_random_state = kw_random_state kw\<rparr>
      in if kw_standardize kw
         then Pipeline [(''standard_scaler'', StandardScaler), (''logistic_regression'', lr)]
         else lr)"

text \<open>
  Lines 116 to 121: \<^verbatim>\<open>grid_lr\<close> is bound only when \<^verbatim>\<open>C\<close> has an iterator; \<open>None\<close> is
  the unbound local variable.
\<close>

definition make_grid_lr :: "lr_kwargs \<Rightarrow> estimator \<Rightarrow> GridSearchCV option" where
  "make_grid_lr kw lr =
     (if hasattr_iter (kw_C kw)
      then Some \<lparr>gs_estimator = lr, gs_param_grid = [(''logistic_regression__C'', kw_C kw)],
                 gs_cv = ShuffleSplit (kw_test_size kw), gs_refit = False,
                 gs_n_jobs = kw_n_jobs kw\<rparr>
      else None)"

text \<open>Lines 125 and 126: the parameters set on the estimator before the last fit.\<close>

definition final_params :: "lr_kwargs \<Rightarrow> (string \<times> pyval) list" where
  "final_params kw =
     [(''logistic_regression__tol'', kw_tol kw),
      (''logistic_regression__max_iter'', kw_max_iter kw)]"

text \<open>
  The function returns the calls it made into the library and its result; an exception
  is \<open>Inl\<close> and ends the run where it is raised.
\<close>

definition logistic_regression ::
  "('m, 'le) sklearn \<Rightarrow> lr_kwargs \<Rightarrow> event list \<times> (py_error + 'm)" where
  "logistic_regression sk kw =
     (case early_tol_of kw of
        Inl e \<Rightarrow> ([], Inl e)
      | Inr etol \<Rightarrow>
     (case early_max_iter_of kw of
        Inl e \<Rightarrow> ([], Inl e)
      | Inr emax \<Rightarrow>
     (let lr = make_lr kw etol emax in
      case make_grid_lr kw lr of
        None \<Rightarrow> ([], Inl (UnboundLocalError ''grid_lr''))
      | Some grid_lr \<Rightarrow>
     (let ev1 = Call_GridSearchCV_fit grid_lr (X_train kw) (y_train kw) in
      case GridSearchCV_fit sk grid_lr (X_train kw) (y_train kw) of
        Inl e \<Rightarrow> ([ev1], Inl e)
      | Inr best_params \<Rightarrow>
     (let ev2 = Call_set_params lr best_params in
      case set_params sk lr best_params of
        Inl e \<Rightarrow> ([ev1, ev2], Inl e)
      | Inr lr1 \<Rightarrow>
     (let ev3 = Call_set_params lr1 (final_params kw) in
      case set_params sk lr1 (final_params kw) of
        Inl e \<Rightarrow> ([ev1, ev2, ev3], Inl e)
      | Inr lr2 \<Rightarrow>
     (let ev4 = Call_fit lr2 (X_train kw) (y_train kw) in
      case estimator_fit sk lr2 (X_train kw) (y_train kw) of
        Inl e \<Rightarrow> ([ev1, ev2, ev3, ev4], Inl e)
      | Inr m \<Rightarrow> ([ev1, ev2, ev3, ev4], Inr m))))))))"

text \<open>The logistic regression inside an estimator, bare or as the named pipeline step.\<close>

fun lr_params_of :: "estimator \<Rightarrow> LogisticRegression_params option" where
  "lr_params_of (LogisticRegression p) = Some p"
| "lr_params_of StandardScaler = None"
| "lr_params_of (Pipeline steps) =
     (case map_of steps ''logistic_regression'' of
        Some (LogisticRegression p) \<Rightarrow> Some p
      | _ \<Rightarrow> None)"

section \<open>\<^verbatim>\<open>fMRITaskClassifier\<close> (fmri.py, lines 47 to 88)\<close>

text \<open>
  The transformer handed to the classifier is any object. The classifier uses two of its
  attributes: the method \<^verbatim>\<open>transform\<close> (line 72) and the call operator \<^verbatim>\<open>__call__\<close>
  (line 85); \<open>None\<close> is an attribute the object does not have.
\<close>

record 'i transformer_obj =
  attr_transform :: "('i \<Rightarrow> pyval \<Rightarrow> py_error + ndarray) option"
  attr_call :: "('i \<Rightarrow> pyval \<Rightarrow> py_error + ndarray) option"

datatype joblib_memory = Memory "string option"

record ('i, 'm, 'le) fMRITaskClassifier =
  transformer :: "'i transformer_obj"
  memory :: joblib_memory
  standardize :: bool
  self_C :: pyval
  self_tol :: pyval
  self_max_iter :: pyval
  n_jobs :: pyval
  random_state :: pyval
  memory_level :: int
  le_attr :: "'le option"
  lr_attr :: "'m option"

text \<open>
  Lines 48 to 69. Line 64 ends in a comma: \<^verbatim>\<open>self.max_iter = max_iter,\<close> stores a tuple
  of one element. The attributes \<^verbatim>\<open>le_\<close> and \<^verbatim>\<open>lr_\<close> (\<open>le_attr\<close>, \<open>lr_attr\<close>) do not
  exist yet: \<open>None\<close>.
\<close>

definition fMRITaskClassifier_init ::
  "'i transformer_obj \<Rightarrow> pyval \<Rightarrow> bool \<Rightarrow> pyval \<Rightarrow> pyval \<Rightarrow> pyval \<Rightarrow> pyval \<Rightarrow>
   joblib_memory \<Rightarrow> int \<Rightarrow> ('i, 'm, 'le) fMRITaskClassifier" where
  "fMRITaskClassifier_init transformer' C' standardize' max_iter' tol' random_state' n_jobs'
      memory' memory_level' =
     \<lparr>transformer = transformer', memory = memory', standardize = standardize',
      self_C = C', self_tol = tol', self_max_iter = PyTuple [max_iter'], n_jobs = n_jobs',
      random_state = random_state', memory_level = memory_level', le_attr = None, lr_attr = None\<rparr>"

text \<open>
  Lines 75 to 82: the keyword arguments of the cached call; the other parameters of
  \<^verbatim>\<open>_logistic_regression\<close> keep their defaults.
\<close>

definition fit_kwargs :: "('i, 'm, 'le) fMRITaskClassifier \<Rightarrow> ndarray \<Rightarrow> int list \<Rightarrow> lr_kwargs" where
  "fit_kwargs self X y =
     (default_kwargs X y)
       \<lparr>kw_standardize := standardize self, kw_C := self_C self, kw_tol := self_tol self,
        kw_max_iter := self_max_iter self, kw_n_jobs := n_jobs self,
        kw_random_state := random_state self\<rparr>"

text \<open>
  Lines 71 to 82. The cache of \<^verbatim>\<open>self._cache\<close> returns what the call returns, so the
  cached call is the call. The model returns the object with \<^verbatim>\<open>le_\<close> and \<^verbatim>\<open>lr_\<close>
  set; a run that raises returns the exception only.
\<close>

definition fMRITaskClassifier_fit ::
  "('m, 'le) sklearn \<Rightarrow> ('i, 'm, 'le) fMRITaskClassifier \<Rightarrow> 'i \<Rightarrow> string list \<Rightarrow> pyval \<Rightarrow>
   py_error + ('i, 'm, 'le) fMRITaskClassifier" where
  "fMRITaskClassifier_fit sk self imgs y confounds =
     (case attr_transform (transformer self) of
        None \<Rightarrow> Inl (AttributeError ''transform'')
      | Some f \<Rightarrow>
     (case f imgs confounds of
        Inl e \<Rightarrow> Inl e
      | Inr X \<Rightarrow>
     (case LabelEncoder_fit_transform sk y of
        Inl e \<Rightarrow> Inl e
      | Inr (le, y') \<Rightarrow>
     (case snd (logistic_regression sk (fit_kwargs self X y')) of
        Inl e \<Rightarrow> Inl e
      | Inr m \<Rightarrow> Inr (self\<lparr>le_attr := Some le, lr_attr := Some m\<rparr>)))))"

text \<open>
  Lines 84 to 88. Line 85 calls the transformer object itself, not its method
  \<^verbatim>\<open>transform\<close>.
\<close>

definition fMRITaskClassifier_predict ::
  "('m, 'le) sklearn \<Rightarrow> ('i, 'm, 'le) fMRITaskClassifier \<Rightarrow> 'i \<Rightarrow> pyval \<Rightarrow>
   py_error + string list" where
  "fMRITaskClassifier_predict sk self imgs confounds =
     (case attr_call (transformer self) of
        None \<Rightarrow> Inl (TypeError ''object is not callable'')
      | Some f \<Rightarrow>
     (case f imgs confounds of
        Inl e \<Rightarrow> Inl e
      | Inr X \<Rightarrow>
     (case lr_attr self of
        None \<Rightarrow> Inl (AttributeError ''lr_'')
      | Some m \<Rightarrow>
     (case estimator_predict sk m X of
        Inl e \<Rightarrow> Inl e
      | Inr y \<Rightarrow>
     (case le_attr self of
        None \<Rightarrow> Inl (AttributeError ''le_'')
      | Some le \<Rightarrow> LabelEncoder_inverse_transform sk le y)))))"

section \<open>\<^verbatim>\<open>MultiProjectionTransformer\<close> (fmri.py, lines 15 to 44)\<close>

text \<open>
  \<^verbatim>\<open>bases\<close> is \<^verbatim>\<open>None\<close> (the default), one two-dimensional array, or a list of
  two-dimensional arrays. The attribute \<^verbatim>\<open>basis\<close> is read and written by \<^verbatim>\<open>fit\<close>
  only; the constructor does not create it.
\<close>

datatype bases_val = NoBases | OneArray ndarray | BasisList "ndarray list"

datatype basis_val = Plain bases_val | ListOf "bases_val list"

record MultiProjectionTransformer =
  bases :: bases_val
  identity :: bool
  basis :: "basis_val option"
  n_loadings_attr :: "nat option"

definition MultiProjectionTransformer_init :: "bases_val \<Rightarrow> bool \<Rightarrow> MultiProjectionTransformer" where
  "MultiProjectionTransformer_init bases' identity' =
     \<lparr>bases = bases', identity = identity', basis = None, n_loadings_attr = None\<rparr>"

text \<open>\<^verbatim>\<open>isinstance(v, list)\<close>\<close>

fun isinstance_list :: "basis_val \<Rightarrow> bool" where
  "isinstance_list (Plain (BasisList ms)) = True"
| "isinstance_list (Plain v) = False"
| "isinstance_list (ListOf vs) = True"

text \<open>
  Lines 21 to 31. Line 22 reads \<^verbatim>\<open>self.basis\<close>. The comprehensions of lines 24 to 27
  iterate over \<^verbatim>\<open>self.bases\<close>: \<^verbatim>\<open>None\<close> has no iterator; the elements of one
  two-dimensional array are its rows, whose shape has no second entry; \<^verbatim>\<open>n_features[0]\<close>
  of line 28 needs one basis at least.
\<close>

definition MultiProjectionTransformer_fit ::
  "MultiProjectionTransformer \<Rightarrow> py_error + MultiProjectionTransformer" where
  "MultiProjectionTransformer_fit self =
     (case basis self of
        None \<Rightarrow> Inl (AttributeError ''basis'')
      | Some b \<Rightarrow>
     (let self1 = (if \<not> isinstance_list b then self\<lparr>basis := Some (ListOf [bases self])\<rparr> else self)
      in case bases self1 of
        NoBases \<Rightarrow> Inl (TypeError ''NoneType object is not iterable'')
      | OneArray m \<Rightarrow> Inl (IndexError (if shape0 m = 0 then ''index 0 is out of bounds''
                                         else ''tuple index out of range''))
      | BasisList ms \<Rightarrow>
     (let n_loadings = sum_list (map shape0 ms);
          n_features = map shape1 ms
      in case n_features of
        [] \<Rightarrow> Inl (IndexError ''index 0 is out of bounds'')
      | n0 # rest \<Rightarrow>
          if \<not> list_all (\<lambda>n. n = n0) n_features then Inl AssertionError
          else Inr (self1\<lparr>n_loadings_attr :=
                      Some (if identity self1 then n_loadings + n0 else n_loadings)\<rparr>))))"

text \<open>
  \<^verbatim>\<open>np.empty((n, m))\<close> allocates without initialising: the cells hold whatever the memory
  held, here \<open>junk\<close>, which differs from run to run.
\<close>

definition np_empty :: "(nat \<Rightarrow> nat \<Rightarrow> real) \<Rightarrow> nat \<Rightarrow> nat \<Rightarrow> ndarray" where
  "np_empty junk n m =
     \<lparr>shape0 = n, shape1 = m, cell = (\<lambda>i j. if i < n \<and> j < m then junk i j else 0)\<rparr>"

text \<open>\<^verbatim>\<open>A.T\<close>\<close>

definition T :: "ndarray \<Rightarrow> ndarray" where
  "T A = \<lparr>shape0 = shape1 A, shape1 = shape0 A, cell = (\<lambda>i j. cell A j i)\<rparr>"

text \<open>
  \<^verbatim>\<open>L[:, a:b] = V\<close> (\<open>stop = None\<close> for \<^verbatim>\<open>L[:, a:] = V\<close>): the slice is cut to the
  columns \<open>L\<close> has, and \<open>V\<close> is broadcast to the shape of the slice, an axis of length one
  being repeated; any other shape raises.
\<close>

definition assign_columns :: "ndarray \<Rightarrow> nat \<Rightarrow> nat option \<Rightarrow> ndarray \<Rightarrow> py_error + ndarray" where
  "assign_columns L a stop V =
     (let lo = min a (shape1 L);
          hi = (case stop of None \<Rightarrow> shape1 L | Some b \<Rightarrow> max lo (min b (shape1 L)));
          w = hi - lo
      in if (shape0 V = shape0 L \<or> shape0 V = 1) \<and> (shape1 V = w \<or> shape1 V = 1)
         then Inr (L\<lparr>cell := (\<lambda>i j. if i < shape0 L \<and> lo \<le> j \<and> j < hi
                                    then cell V (if shape0 V = 1 then 0 else i)
                                              (if shape1 V = 1 then 0 else j - lo)
                                    else cell L i j)\<rparr>)
         else Inl (ValueError ''could not broadcast input array''))"

text \<open>
  Lines 37 to 41, the loop over a list of bases; the state is the offset and the buffer.
  \<open>solve\<close> is \<^verbatim>\<open>numpy.linalg.solve\<close>, a parameter.
\<close>

fun transform_loop ::
  "(ndarray \<Rightarrow> ndarray \<Rightarrow> py_error + ndarray) \<Rightarrow> ndarray \<Rightarrow> ndarray list \<Rightarrow> nat \<Rightarrow> ndarray \<Rightarrow>
   py_error + (nat \<times> ndarray)" where
  "transform_loop solve X [] offset loadings = Inr (offset, loadings)"
| "transform_loop solve X (b # bs) offset loadings =
     (let loadings_length = shape0 b in
      case solve (T b) (T X) of
        Inl e \<Rightarrow> Inl e
      | Inr V \<Rightarrow>
     (case assign_columns loadings offset (Some (offset + loadings_length)) V of
        Inl e \<Rightarrow> Inl e
      | Inr loadings' \<Rightarrow> transform_loop solve X bs (offset + loadings_length) loadings'))"

text \<open>
  Lines 33 to 44. The rows of one two-dimensional array are one-dimensional, and
  \<^verbatim>\<open>linalg.solve\<close> refuses a one-dimensional matrix.
\<close>

definition MultiProjectionTransformer_transform ::
  "(ndarray \<Rightarrow> ndarray \<Rightarrow> py_error + ndarray) \<Rightarrow> (nat \<Rightarrow> nat \<Rightarrow> real) \<Rightarrow>
   MultiProjectionTransformer \<Rightarrow> ndarray \<Rightarrow> pyval \<Rightarrow> py_error + ndarray" where
  "MultiProjectionTransformer_transform solve junk self X confounds =
     (let n_samples = shape0 X in
      case n_loadings_attr self of
        None \<Rightarrow> Inl (AttributeError ''n_loadings_'')
      | Some nl \<Rightarrow>
     (let loadings = np_empty junk n_samples nl in
      case (case bases self of
              NoBases \<Rightarrow> Inl (TypeError ''NoneType object is not iterable'')
            | OneArray m \<Rightarrow>
                if shape0 m = 0 then Inr (0, loadings)
                else Inl (LinAlgError ''1-dimensional array given'')
            | BasisList ms \<Rightarrow> transform_loop solve X ms 0 loadings) of
        Inl e \<Rightarrow> Inl e
      | Inr (offset, loadings') \<Rightarrow>
          if identity self then assign_columns loadings' offset None X
          else Inr loadings'))"

text \<open>
  The transformer as the classifier sees it: the class defines \<^verbatim>\<open>transform\<close> and no
  \<^verbatim>\<open>__call__\<close>.
\<close>

definition as_transformer_obj ::
  "(ndarray \<Rightarrow> ndarray \<Rightarrow> py_error + ndarray) \<Rightarrow> (nat \<Rightarrow> nat \<Rightarrow> real) \<Rightarrow>
   MultiProjectionTransformer \<Rightarrow> ndarray transformer_obj" where
  "as_transformer_obj solve junk self =
     \<lparr>attr_transform = Some (MultiProjectionTransformer_transform solve junk self),
      attr_call = None\<rparr>"

section \<open>Parameter names of scikit-learn\<close>

text \<open>
  scikit-learn resolves the parameter name \<^verbatim>\<open>a__b\<close> through the parameter \<^verbatim>\<open>a\<close> of the
  estimator, and raises \<^verbatim>\<open>ValueError\<close> (``Invalid parameter a for estimator ...'') when
  the estimator has no parameter \<^verbatim>\<open>a\<close>. \<open>before_dunder\<close> is the first part of
  \<^verbatim>\<open>key.split('__', 1)\<close> for a key that contains \<^verbatim>\<open>__\<close>; \<open>param_names\<close> are the names an
  estimator has itself: its constructor's parameters and, for a pipeline, \<^verbatim>\<open>steps\<close> and
  the names of its steps.
\<close>

fun before_dunder :: "string \<Rightarrow> string option" where
  "before_dunder (c # d # cs) =
     (if c = CHR ''_'' \<and> d = CHR ''_'' then Some []
      else map_option ((#) c) (before_dunder (d # cs)))"
| "before_dunder cs = None"

fun param_names :: "estimator \<Rightarrow> string list" where
  "param_names (LogisticRegression p) =
     [''C'', ''class_weight'', ''dual'', ''fit_intercept'', ''intercept_scaling'',
      ''max_iter'', ''multi_class'', ''n_jobs'', ''penalty'', ''random_state'', ''solver'',
      ''tol'', ''verbose'', ''warm_start'']"
| "param_names StandardScaler = [''copy'', ''with_mean'', ''with_std'']"
| "param_names (Pipeline steps) = ''steps'' # map fst steps"

definition unknown_component :: "estimator \<Rightarrow> string \<Rightarrow> bool" where
  "unknown_component est key =
     (case before_dunder key of
        None \<Rightarrow> False
      | Some name \<Rightarrow> name \<notin> set (param_names est))"

text \<open>
  A library refuses unknown components when its grid search raises \<^verbatim>\<open>ValueError\<close> on
  every grid with a key that goes through a parameter the estimator does not have, as
  scikit-learn does when it sets the first candidate on the estimator.
\<close>

definition refuses_unknown_components :: "('m, 'le) sklearn \<Rightarrow> bool" where
  "refuses_unknown_components sk \<longleftrightarrow>
     (\<forall>g X y. list_ex (\<lambda>kv. unknown_component (gs_estimator g) (fst kv)) (gs_param_grid g)
        \<longrightarrow> (\<exists>msg. GridSearchCV_fit sk g X y = Inl (ValueError msg)))"

section \<open>One behaviour of the library, for concrete runs\<close>

text \<open>
  The theorems below hold for every library. To run the model on a concrete input, the
  examples use this one: the grid search refuses unknown components and returns the first
  candidate, \<open>set_params\<close> sets
  the parameters \<^verbatim>\<open>logistic_regression__C\<close>, \<^verbatim>\<open>__tol\<close> and \<^verbatim>\<open>__max_iter\<close> of a pipeline
  and refuses every other name, fitting returns the estimator, prediction returns
  class \<open>0\<close> for every sample, and the label encoder numbers the labels in order of first
  appearance.
\<close>

fun example_first :: "pyval \<Rightarrow> pyval option" where
  "example_first (PyTuple (v # vs)) = Some v"
| "example_first (PyList (v # vs)) = Some v"
| "example_first (NdArray (x # xs)) = Some (PyFloat x)"
| "example_first v = None"

definition example_GridSearchCV_fit ::
  "GridSearchCV \<Rightarrow> ndarray \<Rightarrow> int list \<Rightarrow> py_error + (string \<times> pyval) list" where
  "example_GridSearchCV_fit g X y =
     (case gs_param_grid g of
        [(k, vs)] \<Rightarrow>
          if unknown_component (gs_estimator g) k then Inl (ValueError ''Invalid parameter'')
          else
          (case example_first vs of
             Some v \<Rightarrow> Inr [(k, v)]
           | None \<Rightarrow> Inl (ValueError ''no candidate''))
      | _ \<Rightarrow> Inl (ValueError ''one parameter expected''))"

fun example_set_param :: "string \<times> pyval \<Rightarrow> estimator \<Rightarrow> py_error + estimator" where
  "example_set_param (k, v) (Pipeline [(n1, sc), (n2, LogisticRegression p)]) =
     (if n2 \<noteq> ''logistic_regression'' then Inl (ValueError ''Invalid parameter'')
      else if k = ''logistic_regression__C''
        then Inr (Pipeline [(n1, sc), (n2, LogisticRegression (p\<lparr>lr_C := v\<rparr>))])
      else if k = ''logistic_regression__tol''
        then Inr (Pipeline [(n1, sc), (n2, LogisticRegression (p\<lparr>lr_tol := v\<rparr>))])
      else if k = ''logistic_regression__max_iter''
        then Inr (Pipeline [(n1, sc), (n2, LogisticRegression (p\<lparr>lr_max_iter := v\<rparr>))])
      else Inl (ValueError ''Invalid parameter''))"
| "example_set_param (k, v) e = Inl (ValueError ''Invalid parameter'')"

fun example_set_params :: "estimator \<Rightarrow> (string \<times> pyval) list \<Rightarrow> py_error + estimator" where
  "example_set_params e [] = Inr e"
| "example_set_params e (kv # kvs) =
     (case example_set_param kv e of
        Inl err \<Rightarrow> Inl err
      | Inr e' \<Rightarrow> example_set_params e' kvs)"

fun index_of :: "'a list \<Rightarrow> 'a \<Rightarrow> int" where
  "index_of [] x = 0"
| "index_of (y # ys) x = (if x = y then 0 else 1 + index_of ys x)"

definition example_sklearn :: "(estimator, string list) sklearn" where
  "example_sklearn =
     \<lparr>GridSearchCV_fit = example_GridSearchCV_fit,
      set_params = example_set_params,
      estimator_fit = (\<lambda>e X y. Inr e),
      estimator_predict = (\<lambda>m X. Inr (replicate (shape0 X) 0)),
      LabelEncoder_fit_transform = (\<lambda>y. Inr (remdups y, map (index_of (remdups y)) y)),
      LabelEncoder_inverse_transform =
        (\<lambda>classes y. if list_all (\<lambda>i. 0 \<le> i \<and> nat i < length classes) y
                      then Inr (map (\<lambda>i. classes ! nat i) y)
                      else Inl (ValueError ''y contains previously unseen labels''))\<rparr>"

text \<open>A sample matrix of two samples and two features, and its labels.\<close>

definition example_X :: ndarray where
  "example_X = \<lparr>shape0 = 2, shape1 = 2,
                cell = (\<lambda>i j. if i = 0 \<and> j = 0 then 1 else if i = 1 \<and> j = 1 then 2 else 0)\<rparr>"

text \<open>
  A run of the routine that reaches the last fit: standardisation on, a sweep of two
  candidates, the tolerance \<^verbatim>\<open>1e-4\<close>.
\<close>

definition example_kwargs :: lr_kwargs where
  "example_kwargs =
     (default_kwargs example_X [0, 1])
       \<lparr>kw_standardize := True, kw_C := PyList [PyFloat (1 / 10), PyFloat 1],
        kw_tol := PyFloat (1 / 10 ^ 4), kw_max_iter := PyInt 100\<rparr>"

text \<open>
  The same sweep with the defaults of the signature otherwise: \<^verbatim>\<open>standardize\<close> is false
  and the estimator is no pipeline.
\<close>

definition example_bare_kwargs :: lr_kwargs where
  "example_bare_kwargs =
     (default_kwargs example_X [0, 1])\<lparr>kw_C := PyList [PyFloat (1 / 10), PyFloat 1]\<rparr>"

text \<open>
  A transformer with the method \<^verbatim>\<open>transform\<close> and no \<^verbatim>\<open>__call__\<close>, as the
  \<^verbatim>\<open>MultiProjectionTransformer\<close> of this module; its \<^verbatim>\<open>transform\<close> returns the samples.
\<close>

definition example_transformer :: "ndarray transformer_obj" where
  "example_transformer = \<lparr>attr_transform = Some (\<lambda>X confounds. Inr X), attr_call = None\<rparr>"

text \<open>
  \<^verbatim>\<open>clf = fMRITaskClassifier(transformer, C=[0.1, 1.0], standardize=True)\<close> followed by
  \<^verbatim>\<open>clf.max_iter = 100\<close>, which replaces the tuple the constructor stored.
\<close>

definition example_classifier :: "(ndarray, estimator, string list) fMRITaskClassifier" where
  "example_classifier =
     (fMRITaskClassifier_init example_transformer (PyList [PyFloat (1 / 10), PyFloat 1]) True
        (PyInt 100) (PyFloat (1 / 10 ^ 4)) PyNone (PyInt 1) (Memory None) 1)
       \<lparr>self_max_iter := PyInt 100\<rparr>"

text \<open>A transformer that also defines \<^verbatim>\<open>__call__\<close>.\<close>

definition callable_transformer :: "ndarray transformer_obj" where
  "callable_transformer =
     \<lparr>attr_transform = Some (\<lambda>X confounds. Inr X), attr_call = Some (\<lambda>X confounds. Inr X)\<rparr>"

text \<open>A classifier on which \<^verbatim>\<open>fit\<close> was never called.\<close>

definition unfitted_classifier :: "(ndarray, estimator, string list) fMRITaskClassifier" where
  "unfitted_classifier =
     fMRITaskClassifier_init callable_transformer (PyInt 1) False (PyInt 100)
       (PyFloat (1 / 10 ^ 4)) PyNone (PyInt 1) (Memory None) 1"

section \<open>Two runs of \<^verbatim>\<open>transform\<close>\<close>

text \<open>
  Two buffers agree up to a column offset when they have the same shape and the same
  cells in the columns before the offset (and outside the shape, where there are none).
\<close>

definition agree_upto :: "nat \<Rightarrow> ndarray \<Rightarrow> ndarray \<Rightarrow> bool" where
  "agree_upto off L1 L2 \<longleftrightarrow>
     shape0 L1 = shape0 L2 \<and> shape1 L1 = shape1 L2 \<and>
     (\<forall>i j. j < off \<longrightarrow> cell L1 i j = cell L2 i j) \<and>
     (\<forall>i j. \<not> (i < shape0 L1 \<and> j < shape1 L1) \<longrightarrow> cell L1 i j = cell L2 i j)"

text \<open>
  The basis of two components over two features whose rows are the unit vectors, and
  \<^verbatim>\<open>linalg.solve\<close> for it: the solution of the identity system is the right-hand
  side.
\<close>

definition identity2 :: ndarray where
  "identity2 = \<lparr>shape0 = 2, shape1 = 2, cell = (\<lambda>i j. if i = j \<and> i < 2 then 1 else 0)\<rparr>"

definition example_solve :: "ndarray \<Rightarrow> ndarray \<Rightarrow> py_error + ndarray" where
  "example_solve a b =
     (if shape0 a = shape1 a \<and> shape0 a = shape0 b then Inr b
      else Inl (LinAlgError ''Last 2 dimensions of the array must be square''))"

text \<open>
  \<^verbatim>\<open>t = MultiProjectionTransformer(bases=[identity2], identity=False)\<close> followed by
  \<^verbatim>\<open>t.basis = None\<close>, without which \<^verbatim>\<open>fit\<close> raises; and the object after \<^verbatim>\<open>fit\<close>.
\<close>

definition example_projection :: MultiProjectionTransformer where
  "example_projection =
     (MultiProjectionTransformer_init (BasisList [identity2]) False)
       \<lparr>basis := Some (Plain NoBases)\<rparr>"

definition example_fitted_projection :: MultiProjectionTransformer where
  "example_fitted_projection =
     \<lparr>bases = BasisList [identity2], identity = False,
      basis = Some (ListOf [BasisList [identity2]]), n_loadings_attr = Some 2\<rparr>"

section \<open>The factorisation engine\<close>

text \<open>
  \<^verbatim>\<open>modl/decomposition/faster/setup.py\<close> builds the extension \<^verbatim>\<open>dict_fact_fast\<close>, whose
  source is not among the files of this development. Its two operations below follow the
  specification.
\<close>

text \<open>
  Modelled from the spec: the error of the taxonomy that \<^verbatim>\<open>CodeSolver.solve\<close> surfaces
  (the singular system is ``recovered locally'' and ``not surfaced'').
\<close>

datatype solver_error = DimensionMismatch

text \<open>
  Modelled from the spec: \<^verbatim>\<open>CodeSolver.solve(sample, mask, dictionary, alpha)\<close>, which is
  missing from the sources. ``An all-zero mask returns the zero code vector with no
  computation'' and ``no error raised'': the test of the mask comes first. ``Absence of an
  explicit mask implies all-observed'': \<open>None\<close>. ``Sample width differs from dictionary
  width'' is \<open>DimensionMismatch\<close>. The ridge regression on the masked sub-dictionary,
  with its retry at a larger \<open>alpha\<close> when the system is rank-deficient, is the
  parameter \<open>ridge\<close>. The dictionary is the list of its \<open>k\<close> rows.
\<close>

definition CodeSolver_solve ::
  "(real list \<Rightarrow> bool list \<Rightarrow> real list list \<Rightarrow> real \<Rightarrow> real list) \<Rightarrow>
   real list \<Rightarrow> bool list option \<Rightarrow> real list list \<Rightarrow> real \<Rightarrow> solver_error + real list" where
  "CodeSolver_solve ridge sample msk dictionary alpha =
     (let m = (case msk of None \<Rightarrow> replicate (length sample) True | Some m \<Rightarrow> m) in
      if msk \<noteq> None \<and> list_all (\<lambda>b. \<not> b) m then Inr (replicate (length dictionary) 0)
      else if \<not> list_all (\<lambda>row. length row = length sample) dictionary
        then Inl DimensionMismatch
      else Inr (ridge sample m dictionary alpha))"

text \<open>
  Modelled from the spec: the ``norm'' of a dictionary row, which the spec does not name,
  read as the Euclidean norm.
\<close>

definition norm2 :: "real list \<Rightarrow> real" where
  "norm2 v = sqrt (\<Sum>x\<leftarrow>v. x * x)"

text \<open>
  Modelled from the spec: ``projects each updated row back onto the bounded-norm feasible
  set'', rows being ``constrained to bounded norm (\<open>\<le> 1\<close>)''; the operation is missing
  from the sources. A row inside the ball is kept, a row outside is scaled to norm one.
\<close>

definition project_row :: "real list \<Rightarrow> real list" where
  "project_row v = (if norm2 v \<le> 1 then v else map (\<lambda>x. x / norm2 v) v)"

text \<open>
  Modelled from the spec: the state that \<^verbatim>\<open>DictionaryUpdater\<close> writes, the sufficient
  statistics \<open>A\<close> (\<open>k \<times> k\<close>) and \<open>B\<close> (\<open>k \<times> p\<close>) and the dictionary (\<open>k \<times> p\<close>), as lists
  of rows.
\<close>

record updater_state =
  stat_A :: "real list list"
  stat_B :: "real list list"
  dictionary :: "real list list"

text \<open>
  Modelled from the spec: \<^verbatim>\<open>DictionaryUpdater.update(A, B, dictionary, code, sample, subset, t)\<close>,
  which is missing from the sources. It ``updates A and B with an exponential forgetting
  factor'' (the parameter \<open>accumulate\<close>), ``recomputes dictionary rows restricted to subset
  columns via a few steps of block-coordinate descent against updated A, B'' (the
  parameter \<open>descend\<close>, which gives the recomputed row \<open>k\<close>), and ``projects each updated
  row back onto the bounded-norm feasible set''.
\<close>

definition DictionaryUpdater_update ::
  "(real list list \<Rightarrow> real list list \<Rightarrow> real list \<Rightarrow> real list \<Rightarrow> nat \<Rightarrow> real list list \<times> real list list) \<Rightarrow>
   (real list list \<Rightarrow> real list list \<Rightarrow> real list list \<Rightarrow> nat list \<Rightarrow> nat \<Rightarrow> real list) \<Rightarrow>
   updater_state \<Rightarrow> real list \<Rightarrow> real list \<Rightarrow> nat list \<Rightarrow> nat \<Rightarrow> updater_state" where
  "DictionaryUpdater_update accumulate descend st code sample subset' t =
     (case accumulate (stat_A st) (stat_B st) code sample t of
        (A', B') \<Rightarrow>
          \<lparr>stat_A = A', stat_B = B',
           dictionary = map (\<lambda>k. project_row (descend A' B' (dictionary st) subset' k))
                            [0..<length (dictionary st)]\<rparr>)"

section \<open>Theorems\<close>

text \<open>
  For every \<^verbatim>\<open>C\<close> without an iterator the routine ends in an exception before any call
  into the library: the arithmetic of lines 104 and 106, or the unbound \<^verbatim>\<open>grid_lr\<close>.
\<close>

lemma scalar_C_unbound:
  "\<not> hasattr_iter (kw_C kw) \<Longrightarrow> \<exists>e. logistic_regression sk kw = ([], Inl e)"
  by (simp add: logistic_regression_def make_grid_lr_def Let_def split: sum.splits)

text \<open>
  C1. With the default arguments of the signature (\<^verbatim>\<open>C=1\<close>, a scalar) the routine makes
  no call into the library and ends in the unbound local variable \<^verbatim>\<open>grid_lr\<close> of line
  122: for this scalar \<^verbatim>\<open>C\<close> no fit is performed.
\<close>

theorem C1_default_scalar_C_raises:
  "logistic_regression sk (default_kwargs X y) = ([], Inl (UnboundLocalError ''grid_lr''))"
  by (simp add: logistic_regression_def default_kwargs_def early_tol_of_def
      early_max_iter_of_def make_grid_lr_def Let_def float_overflow_bound_def)

text \<open>A run that returns made the four calls, each on the result of the one before.\<close>

lemma lr_success_trace:
  assumes "logistic_regression sk kw = (tr, Inr m)"
  shows "\<exists>etol emax grid_lr best lr1 lr2.
      early_tol_of kw = Inr etol \<and> early_max_iter_of kw = Inr emax \<and>
      make_grid_lr kw (make_lr kw etol emax) = Some grid_lr \<and>
      GridSearchCV_fit sk grid_lr (X_train kw) (y_train kw) = Inr best \<and>
      set_params sk (make_lr kw etol emax) best = Inr lr1 \<and>
      set_params sk lr1 (final_params kw) = Inr lr2 \<and>
      estimator_fit sk lr2 (X_train kw) (y_train kw) = Inr m \<and>
      tr = [Call_GridSearchCV_fit grid_lr (X_train kw) (y_train kw),
            Call_set_params (make_lr kw etol emax) best,
            Call_set_params lr1 (final_params kw),
            Call_fit lr2 (X_train kw) (y_train kw)]"
  using assms
  by (auto simp add: logistic_regression_def Let_def split: sum.splits option.splits)

text \<open>The first call of a run is the fit of the grid search.\<close>

lemma lr_first_call:
  assumes "logistic_regression sk kw = (tr, res)" and "tr \<noteq> []"
  shows "\<exists>etol emax grid_lr.
      early_tol_of kw = Inr etol \<and> early_max_iter_of kw = Inr emax \<and>
      make_grid_lr kw (make_lr kw etol emax) = Some grid_lr \<and>
      hd tr = Call_GridSearchCV_fit grid_lr (X_train kw) (y_train kw)"
  using assms
  by (auto simp add: logistic_regression_def Let_def split: sum.splits option.splits)

lemma lr_no_call_iff:
  assumes "logistic_regression sk kw = (tr, res)" and "hasattr_iter (kw_C kw)"
  shows "tr = [] \<longleftrightarrow> isl (early_tol_of kw) \<or> isl (early_max_iter_of kw)"
  using assms
  by (auto simp add: logistic_regression_def make_grid_lr_def Let_def
      split: sum.splits option.splits)

lemma lr_params_of_make_lr:
  "\<exists>p. lr_params_of (make_lr kw etol emax) = Some p \<and> lr_tol p = etol \<and> lr_C p = kw_C kw
       \<and> lr_max_iter p = emax"
  by (simp add: make_lr_def Let_def)

text \<open>A run whose four calls into the library succeed returns the result of the last.\<close>

lemma lr_returns:
  assumes "hasattr_iter (kw_C kw)"
    and "early_tol_of kw = Inr etol" and "early_max_iter_of kw = Inr emax"
    and "GridSearchCV_fit sk
           \<lparr>gs_estimator = make_lr kw etol emax,
            gs_param_grid = [(''logistic_regression__C'', kw_C kw)],
            gs_cv = ShuffleSplit (kw_test_size kw), gs_refit = False,
            gs_n_jobs = kw_n_jobs kw\<rparr> (X_train kw) (y_train kw) = Inr best"
    and "set_params sk (make_lr kw etol emax) best = Inr lr1"
    and "set_params sk lr1
           [(''logistic_regression__tol'', kw_tol kw),
            (''logistic_regression__max_iter'', kw_max_iter kw)] = Inr lr2"
    and "estimator_fit sk lr2 (X_train kw) (y_train kw) = Inr m"
  shows "snd (logistic_regression sk kw) = Inr m"
  using assms
  by (simp add: logistic_regression_def make_grid_lr_def final_params_def Let_def)

lemma early_tol_num:
  assumes "py_num (kw_tol kw) = Some t" and "kw_early_tol kw = PyNone"
    and "early_tol_of kw = Inr etol"
  shows "etol = PyFloat (t * 100)"
  using assms by (cases "kw_tol kw") (auto simp add: early_tol_of_def split: if_splits)

lemma example_run_value:
  "logistic_regression example_sklearn example_kwargs =
     ([Call_GridSearchCV_fit
         \<lparr>gs_estimator = make_lr example_kwargs (PyFloat (1 / 100)) (PyFloat 10),
          gs_param_grid = [(''logistic_regression__C'', PyList [PyFloat (1 / 10), PyFloat 1])],
          gs_cv = ShuffleSplit (1 / 10), gs_refit = False, gs_n_jobs = PyInt 1\<rparr>
         example_X [0, 1],
       Call_set_params (make_lr example_kwargs (PyFloat (1 / 100)) (PyFloat 10))
         [(''logistic_regression__C'', PyFloat (1 / 10))],
       Call_set_params (make_lr (example_kwargs\<lparr>kw_C := PyFloat (1 / 10)\<rparr>) (PyFloat (1 / 100)) (PyFloat 10))
         [(''logistic_regression__tol'', PyFloat (1 / 10000)),
          (''logistic_regression__max_iter'', PyInt 100)],
       Call_fit (make_lr (example_kwargs\<lparr>kw_C := PyFloat (1 / 10)\<rparr>) (PyFloat (1 / 10000)) (PyInt 100))
         example_X [0, 1]],
      Inr (make_lr (example_kwargs\<lparr>kw_C := PyFloat (1 / 10)\<rparr>) (PyFloat (1 / 10000)) (PyInt 100)))"
  by (simp add: logistic_regression_def example_kwargs_def default_kwargs_def early_tol_of_def
      early_max_iter_of_def make_grid_lr_def make_lr_def final_params_def Let_def
      example_sklearn_def example_GridSearchCV_fit_def unknown_component_def
      float_overflow_bound_def)

text \<open>\<^verbatim>\<open>predict\<close> raises for every transformer without \<^verbatim>\<open>__call__\<close>, fitted or not.\<close>

lemma predict_not_callable:
  "attr_call (transformer self) = None \<Longrightarrow>
   fMRITaskClassifier_predict sk self imgs confounds = Inl (TypeError ''object is not callable'')"
  by (simp add: fMRITaskClassifier_predict_def)

text \<open>
  C2. A classifier whose transformer has \<^verbatim>\<open>transform\<close> and no \<^verbatim>\<open>__call__\<close>: \<^verbatim>\<open>fit\<close>
  completes and sets \<^verbatim>\<open>lr_\<close> and \<^verbatim>\<open>le_\<close>, and \<^verbatim>\<open>predict\<close> on the fitted classifier
  raises a type error at line 85 instead of returning labels.
\<close>

theorem C2_predict_after_fit_raises:
  "\<exists>fitted m le.
     fMRITaskClassifier_fit example_sklearn example_classifier example_X [''a'', ''b''] PyNone
       = Inr fitted \<and>
     lr_attr fitted = Some m \<and> le_attr fitted = Some le \<and>
     fMRITaskClassifier_predict example_sklearn fitted example_X PyNone
       = Inl (TypeError ''object is not callable'')"
  by (simp add: fMRITaskClassifier_fit_def fMRITaskClassifier_predict_def
      example_classifier_def example_transformer_def fMRITaskClassifier_init_def
      fit_kwargs_def logistic_regression_def default_kwargs_def early_tol_of_def
      early_max_iter_of_def make_grid_lr_def make_lr_def final_params_def Let_def
      example_sklearn_def example_GridSearchCV_fit_def unknown_component_def
      float_overflow_bound_def)

text \<open>
  C3. Let \<^verbatim>\<open>tol\<close> be a positive number and \<^verbatim>\<open>early_tol\<close> be unset. In every run that
  reaches the grid search, the estimator handed to the search has the tolerance
  \<^verbatim>\<open>tol * 1e2\<close>. In every run that returns, the calls are: the search on that estimator;
  \<^verbatim>\<open>set_params\<close> of the best parameters on it; \<^verbatim>\<open>set_params\<close> on the result, with
  \<^verbatim>\<open>logistic_regression__tol\<close> set to \<^verbatim>\<open>tol\<close>; and the last fit on the result of that,
  which is what the run returns. So the estimator of the last fit is the one on which
  \<^verbatim>\<open>tol\<close> was set last, and where the library's \<^verbatim>\<open>set_params\<close> sets what it is given,
  its tolerance is \<^verbatim>\<open>tol\<close>. Conversely, for an iterable \<^verbatim>\<open>C\<close> the run returns whenever
  these four calls succeed, the search being on an estimator of tolerance \<^verbatim>\<open>tol * 1e2\<close>.
  And \<^verbatim>\<open>tol\<close> is strictly smaller than \<^verbatim>\<open>tol * 1e2\<close>: the last fit runs at a stricter
  tolerance than the search.
\<close>

theorem C3_search_tolerance_looser_than_final:
  assumes "py_num (kw_tol kw) = Some t" and "0 < t" and "kw_early_tol kw = PyNone"
    and "logistic_regression sk kw = (tr, res)"
  shows "(tr \<noteq> [] \<longrightarrow>
           (\<exists>grid_lr p. hd tr = Call_GridSearchCV_fit grid_lr (X_train kw) (y_train kw) \<and>
              lr_params_of (gs_estimator grid_lr) = Some p \<and> lr_tol p = PyFloat (t * 100))) \<and>
         (\<forall>m. res = Inr m \<longrightarrow>
           (\<exists>grid_lr p best lr1 lr2.
              lr_params_of (gs_estimator grid_lr) = Some p \<and> lr_tol p = PyFloat (t * 100) \<and>
              GridSearchCV_fit sk grid_lr (X_train kw) (y_train kw) = Inr best \<and>
              set_params sk (gs_estimator grid_lr) best = Inr lr1 \<and>
              set_params sk lr1
                [(''logistic_regression__tol'', kw_tol kw),
                 (''logistic_regression__max_iter'', kw_max_iter kw)] = Inr lr2 \<and>
              estimator_fit sk lr2 (X_train kw) (y_train kw) = Inr m \<and>
              tr = [Call_GridSearchCV_fit grid_lr (X_train kw) (y_train kw),
                    Call_set_params (gs_estimator grid_lr) best,
                    Call_set_params lr1
                      [(''logistic_regression__tol'', kw_tol kw),
                       (''logistic_regression__max_iter'', kw_max_iter kw)],
                    Call_fit lr2 (X_train kw) (y_train kw)] \<and>
              ((\<forall>e e'. set_params sk e
                          [(''logistic_regression__tol'', kw_tol kw),
                           (''logistic_regression__max_iter'', kw_max_iter kw)] = Inr e' \<longrightarrow>
                        (\<exists>p'. lr_params_of e' = Some p' \<and> lr_tol p' = kw_tol kw)) \<longrightarrow>
               (\<exists>p2. lr_params_of lr2 = Some p2 \<and> lr_tol p2 = kw_tol kw)))) \<and>
         (\<forall>etol emax best lr1 lr2 m.
            hasattr_iter (kw_C kw) \<and>
            early_tol_of kw = Inr etol \<and> early_max_iter_of kw = Inr emax \<and>
            GridSearchCV_fit sk
              \<lparr>gs_estimator = make_lr kw etol emax,
               gs_param_grid = [(''logistic_regression__C'', kw_C kw)],
               gs_cv = ShuffleSplit (kw_test_size kw), gs_refit = False,
               gs_n_jobs = kw_n_jobs kw\<rparr> (X_train kw) (y_train kw) = Inr best \<and>
            set_params sk (make_lr kw etol emax) best = Inr lr1 \<and>
            set_params sk lr1
              [(''logistic_regression__tol'', kw_tol kw),
               (''logistic_regression__max_iter'', kw_max_iter kw)] = Inr lr2 \<and>
            estimator_fit sk lr2 (X_train kw) (y_train kw) = Inr m
            \<longrightarrow> res = Inr m \<and> etol = PyFloat (t * 100)) \<and>
         t < t * 100"
proof (intro conjI impI allI)
  fix etol emax best lr1 lr2 m
  assume h: "hasattr_iter (kw_C kw) \<and>
            early_tol_of kw = Inr etol \<and> early_max_iter_of kw = Inr emax \<and>
            GridSearchCV_fit sk
              \<lparr>gs_estimator = make_lr kw etol emax,
               gs_param_grid = [(''logistic_regression__C'', kw_C kw)],
               gs_cv = ShuffleSplit (kw_test_size kw), gs_refit = False,
               gs_n_jobs = kw_n_jobs kw\<rparr> (X_train kw) (y_train kw) = Inr best \<and>
            set_params sk (make_lr kw etol emax) best = Inr lr1 \<and>
            set_params sk lr1
              [(''logistic_regression__tol'', kw_tol kw),
               (''logistic_regression__max_iter'', kw_max_iter kw)] = Inr lr2 \<and>
            estimator_fit sk lr2 (X_train kw) (y_train kw) = Inr m"
  then have "snd (logistic_regression sk kw) = Inr m"
    using lr_returns [of kw etol emax sk best lr1 lr2 m] by blast
  with assms(4) show "res = Inr m" by simp
  from h early_tol_num [OF assms(1) assms(3)] show "etol = PyFloat (t * 100)" by blast
next
  assume ne: "tr \<noteq> []"
  from lr_first_call [OF assms(4) ne] obtain etol emax grid_lr where
    e: "early_tol_of kw = Inr etol" and
    g: "make_grid_lr kw (make_lr kw etol emax) = Some grid_lr" and
    h: "hd tr = Call_GridSearchCV_fit grid_lr (X_train kw) (y_train kw)"
    by blast
  from early_tol_num [OF assms(1) assms(3) e] have etol: "etol = PyFloat (t * 100)" .
  from g have ge: "gs_estimator grid_lr = make_lr kw etol emax"
    by (auto simp add: make_grid_lr_def split: if_splits)
  from lr_params_of_make_lr [of kw etol emax] obtain p where
    "lr_params_of (make_lr kw etol emax) = Some p" and "lr_tol p = etol" by blast
  with h ge etol
  show "\<exists>grid_lr p. hd tr = Call_GridSearchCV_fit grid_lr (X_train kw) (y_train kw) \<and>
          lr_params_of (gs_estimator grid_lr) = Some p \<and> lr_tol p = PyFloat (t * 100)"
    by auto
next
  fix m assume "res = Inr m"
  with assms(4) have "logistic_regression sk kw = (tr, Inr m)" by simp
  from lr_success_trace [OF this] obtain etol emax grid_lr best lr1 lr2 where
    e: "early_tol_of kw = Inr etol" and
    g: "make_grid_lr kw (make_lr kw etol emax) = Some grid_lr" and
    r: "GridSearchCV_fit sk grid_lr (X_train kw) (y_train kw) = Inr best"
      "set_params sk (make_lr kw etol emax) best = Inr lr1"
      "set_params sk lr1 (final_params kw) = Inr lr2"
      "estimator_fit sk lr2 (X_train kw) (y_train kw) = Inr m"
      "tr = [Call_GridSearchCV_fit grid_lr (X_train kw) (y_train kw),
            Call_set_params (make_lr kw etol emax) best,
            Call_set_params lr1 (final_params kw),
            Call_fit lr2 (X_train kw) (y_train kw)]"
    by blast
  from early_tol_num [OF assms(1) assms(3) e] have etol: "etol = PyFloat (t * 100)" .
  from g have ge: "gs_estimator grid_lr = make_lr kw etol emax"
    by (auto simp add: make_grid_lr_def split: if_splits)
  from lr_params_of_make_lr [of kw etol emax] obtain p where
    p: "lr_params_of (make_lr kw etol emax) = Some p" "lr_tol p = etol" by blast
  have honoured: "\<exists>p2. lr_params_of lr2 = Some p2 \<and> lr_tol p2 = kw_tol kw"
    if "\<forall>e e'. set_params sk e
                  [(''logistic_regression__tol'', kw_tol kw),
                   (''logistic_regression__max_iter'', kw_max_iter kw)] = Inr e' \<longrightarrow>
                (\<exists>p'. lr_params_of e' = Some p' \<and> lr_tol p' = kw_tol kw)"
    using that r(3) by (simp add: final_params_def)
  from r ge p etol honoured
  show "\<exists>grid_lr p best lr1 lr2.
          lr_params_of (gs_estimator grid_lr) = Some p \<and> lr_tol p = PyFloat (t * 100) \<and>
          GridSearchCV_fit sk grid_lr (X_train kw) (y_train kw) = Inr best \<and>
          set_params sk (gs_estimator grid_lr) best = Inr lr1 \<and>
          set_params sk lr1
            [(''logistic_regression__tol'', kw_tol kw),
             (''logistic_regression__max_iter'', kw_max_iter kw)] = Inr lr2 \<and>
          estimator_fit sk lr2 (X_train kw) (y_train kw) = Inr m \<and>
          tr = [Call_GridSearchCV_fit grid_lr (X_train kw) (y_train kw),
                Call_set_params (gs_estimator grid_lr) best,
                Call_set_params lr1
                  [(''logistic_regression__tol'', kw_tol kw),
                   (''logistic_regression__max_iter'', kw_max_iter kw)],
                Call_fit lr2 (X_train kw) (y_train kw)] \<and>
          ((\<forall>e e'. set_params sk e
                      [(''logistic_regression__tol'', kw_tol kw),
                       (''logistic_regression__max_iter'', kw_max_iter kw)] = Inr e' \<longrightarrow>
                    (\<exists>p'. lr_params_of e' = Some p' \<and> lr_tol p' = kw_tol kw)) \<longrightarrow>
           (\<exists>p2. lr_params_of lr2 = Some p2 \<and> lr_tol p2 = kw_tol kw))"
    by (simp add: final_params_def)
next
  from assms(2) show "t < t * 100" by simp
qed

theorem C3_witness:
  "py_num (kw_tol example_kwargs) = Some (1 / 10 ^ 4) \<and> (0::real) < 1 / 10 ^ 4 \<and>
   kw_early_tol example_kwargs = PyNone \<and>
   (\<exists>tr m grid_lr p lr2 p2.
      logistic_regression example_sklearn example_kwargs = (tr, Inr m) \<and>
      hd tr = Call_GridSearchCV_fit grid_lr example_X [0, 1] \<and>
      lr_params_of (gs_estimator grid_lr) = Some p \<and> lr_tol p = PyFloat (1 / 100) \<and>
      last tr = Call_fit lr2 example_X [0, 1] \<and>
      lr_params_of lr2 = Some p2 \<and> lr_tol p2 = PyFloat (1 / 10 ^ 4))"
proof -
  have a: "py_num (kw_tol example_kwargs) = Some (1 / 10 ^ 4)"
    by (simp add: example_kwargs_def default_kwargs_def)
  have b: "(0::real) < 1 / 10 ^ 4" by simp
  have c: "kw_early_tol example_kwargs = PyNone"
    by (simp add: example_kwargs_def default_kwargs_def)
  note run = example_run_value
  have l: "lr_params_of (make_lr (example_kwargs\<lparr>kw_C := PyFloat (1 / 10)\<rparr>)
              (PyFloat (1 / 10000)) (PyInt 100))
           = Some \<lparr>lr_multi_class = ''multinomial'', lr_C = PyFloat (1 / 10), lr_solver = ''sag'',
                   lr_tol = PyFloat (1 / 10000), lr_max_iter = PyInt 100,
                   lr_verbose = PyInt 0, lr_random_state = PyNone\<rparr>"
    by (simp add: make_lr_def example_kwargs_def default_kwargs_def)
  have g: "lr_params_of (make_lr example_kwargs (PyFloat (1 / 100)) (PyFloat 10))
           = Some \<lparr>lr_multi_class = ''multinomial'', lr_C = PyList [PyFloat (1 / 10), PyFloat 1],
                   lr_solver = ''sag'', lr_tol = PyFloat (1 / 100), lr_max_iter = PyFloat 10,
                   lr_verbose = PyInt 0, lr_random_state = PyNone\<rparr>"
    by (simp add: make_lr_def example_kwargs_def default_kwargs_def)
  from C3_search_tolerance_looser_than_final [OF a b c run]
  have "(1::real) / 10 ^ 4 < 1 / 10 ^ 4 * 100" by (elim conjE)
  with a b c run l g show ?thesis by simp
qed

text \<open>The example library refuses unknown components.\<close>

lemma example_sklearn_refuses: "refuses_unknown_components example_sklearn"
  by (auto simp add: refuses_unknown_components_def example_sklearn_def
      example_GridSearchCV_fit_def split: list.splits)

text \<open>
  C4. With \<^verbatim>\<open>standardize\<close> false, the default, the estimator is a bare
  \<^verbatim>\<open>LogisticRegression\<close>, and the grid of line 118 is keyed by
  \<^verbatim>\<open>logistic_regression__C\<close>, the name of a pipeline step. For every library that refuses
  unknown components and every iterable \<^verbatim>\<open>C\<close>, the run ends in an exception before any
  call, or after the one call of the search in its \<^verbatim>\<open>ValueError\<close>: no best parameters
  are selected or applied and no final fit is performed.
\<close>

theorem C4_bare_estimator_search_refused:
  assumes "refuses_unknown_components sk" and "hasattr_iter (kw_C kw)"
    and "\<not> kw_standardize kw"
  shows "(\<exists>e. logistic_regression sk kw = ([], Inl e)) \<or>
         (\<exists>grid_lr p msg.
            logistic_regression sk kw
              = ([Call_GridSearchCV_fit grid_lr (X_train kw) (y_train kw)],
                 Inl (ValueError msg)) \<and>
            gs_estimator grid_lr = LogisticRegression p \<and>
            gs_param_grid grid_lr = [(''logistic_regression__C'', kw_C kw)] \<and>
            gs_cv grid_lr = ShuffleSplit (kw_test_size kw) \<and> \<not> gs_refit grid_lr)"
proof (cases "early_tol_of kw")
  case (Inl e)
  then show ?thesis by (simp add: logistic_regression_def)
next
  case etol: (Inr etol)
  show ?thesis
  proof (cases "early_max_iter_of kw")
    case (Inl e)
    with etol show ?thesis by (simp add: logistic_regression_def)
  next
    case emax: (Inr emax)
    define p where "p = \<lparr>lr_multi_class = ''multinomial'', lr_C = kw_C kw, lr_solver = ''sag'',
             lr_tol = etol, lr_max_iter = emax, lr_verbose = kw_verbose kw,
             lr_random_state = kw_random_state kw\<rparr>"
    define grid_lr where "grid_lr =
       \<lparr>gs_estimator = LogisticRegression p,
        gs_param_grid = [(''logistic_regression__C'', kw_C kw)],
        gs_cv = ShuffleSplit (kw_test_size kw), gs_refit = False, gs_n_jobs = kw_n_jobs kw\<rparr>"
    have lr: "make_lr kw etol emax = LogisticRegression p"
      using assms(3) by (simp add: make_lr_def p_def)
    have g: "make_grid_lr kw (LogisticRegression p) = Some grid_lr"
      using assms(2) by (simp add: make_grid_lr_def grid_lr_def)
    have "list_ex (\<lambda>kv. unknown_component (gs_estimator grid_lr) (fst kv)) (gs_param_grid grid_lr)"
      by (simp add: grid_lr_def unknown_component_def)
    with assms(1) obtain msg where
      "GridSearchCV_fit sk grid_lr (X_train kw) (y_train kw) = Inl (ValueError msg)"
      unfolding refuses_unknown_components_def by blast
    with etol emax lr g have
      "logistic_regression sk kw
         = ([Call_GridSearchCV_fit grid_lr (X_train kw) (y_train kw)], Inl (ValueError msg))"
      by (simp add: logistic_regression_def)
    then show ?thesis by (auto simp add: grid_lr_def)
  qed
qed

theorem C4_witness:
  "refuses_unknown_components example_sklearn \<and> hasattr_iter (kw_C example_bare_kwargs) \<and>
   \<not> kw_standardize example_bare_kwargs \<and>
   (\<exists>grid_lr p.
      logistic_regression example_sklearn example_bare_kwargs
        = ([Call_GridSearchCV_fit grid_lr example_X [0, 1]],
           Inl (ValueError ''Invalid parameter'')) \<and>
      gs_estimator grid_lr = LogisticRegression p \<and>
      gs_param_grid grid_lr
        = [(''logistic_regression__C'', PyList [PyFloat (1 / 10), PyFloat 1])])"
proof -
  note a = example_sklearn_refuses
  have b: "hasattr_iter (kw_C example_bare_kwargs)"
    by (simp add: example_bare_kwargs_def default_kwargs_def)
  have c: "\<not> kw_standardize example_bare_kwargs"
    by (simp add: example_bare_kwargs_def default_kwargs_def)
  have run: "logistic_regression example_sklearn example_bare_kwargs
      = ([Call_GridSearchCV_fit
            \<lparr>gs_estimator = make_lr example_bare_kwargs (PyFloat (1 / 100000)) (PyFloat 100),
             gs_param_grid = [(''logistic_regression__C'', PyList [PyFloat (1 / 10), PyFloat 1])],
             gs_cv = ShuffleSplit (1 / 10), gs_refit = False, gs_n_jobs = PyInt 1\<rparr>
            example_X [0, 1]],
         Inl (ValueError ''Invalid parameter''))"
    by (simp add: logistic_regression_def example_bare_kwargs_def default_kwargs_def
        early_tol_of_def early_max_iter_of_def make_grid_lr_def make_lr_def Let_def
        example_sklearn_def example_GridSearchCV_fit_def unknown_component_def
        float_overflow_bound_def)
  from C4_bare_estimator_search_refused [OF a b c] run
  show ?thesis using a b c
    by (auto simp add: make_lr_def example_bare_kwargs_def default_kwargs_def)
qed

text \<open>
  C5. On a classifier without the attribute \<^verbatim>\<open>lr_\<close>, that is one on which no
  \<^verbatim>\<open>fit\<close> has completed, \<^verbatim>\<open>predict\<close> raises and returns no labels, whatever the
  transformer and the library do.
\<close>

theorem C5_predict_before_fit_raises:
  assumes "lr_attr self = None"
  shows "\<exists>e. fMRITaskClassifier_predict sk self imgs confounds = Inl e"
  using assms
  by (auto simp add: fMRITaskClassifier_predict_def split: option.splits sum.splits)

theorem C5_witness:
  "lr_attr unfitted_classifier = None \<and>
   fMRITaskClassifier_predict example_sklearn unfitted_classifier example_X PyNone
     = Inl (AttributeError ''lr_'')"
proof -
  have a: "lr_attr unfitted_classifier = None"
    by (simp add: unfitted_classifier_def fMRITaskClassifier_init_def)
  from C5_predict_before_fit_raises [OF a, of example_sklearn example_X PyNone]
  show ?thesis using a
    by (simp add: fMRITaskClassifier_predict_def unfitted_classifier_def
        fMRITaskClassifier_init_def callable_transformer_def)
qed

text \<open>
  C9. On every transformer made by the constructor, whatever \<^verbatim>\<open>bases\<close> and
  \<^verbatim>\<open>identity\<close>, \<^verbatim>\<open>fit\<close> raises the attribute error of \<^verbatim>\<open>self.basis\<close> (line 22) and
  so never sets \<^verbatim>\<open>n_loadings_\<close>.
\<close>

theorem C9_fit_reads_missing_attribute:
  "MultiProjectionTransformer_fit (MultiProjectionTransformer_init bases' identity')
     = Inl (AttributeError ''basis'')"
  by (simp add: MultiProjectionTransformer_fit_def MultiProjectionTransformer_init_def)


text \<open>
  A consequence of the tuple: \<^verbatim>\<open>max_iter / 10\<close> of line 106 raises, so \<^verbatim>\<open>fit\<close> on a
  classifier as the constructor made it never completes.
\<close>

lemma fit_after_init_raises:
  "\<exists>e. fMRITaskClassifier_fit sk
          (fMRITaskClassifier_init transformer' C' standardize' max_iter' tol'
             random_state' n_jobs' memory' memory_level') imgs y confounds = Inl e"
  by (auto simp add: fMRITaskClassifier_fit_def logistic_regression_def early_max_iter_of_def
      fit_kwargs_def default_kwargs_def fMRITaskClassifier_init_def
      split: option.splits sum.splits prod.splits)

lemma np_empty_agree: "agree_upto 0 (np_empty junk1 n m) (np_empty junk2 n m)"
  by (simp add: agree_upto_def np_empty_def)

lemma assign_columns_shape:
  "assign_columns L a stop V = Inr L' \<Longrightarrow> shape0 L' = shape0 L \<and> shape1 L' = shape1 L"
  by (auto simp add: assign_columns_def Let_def split: if_splits)

lemma assign_columns_agree:
  assumes "agree_upto off L1 L2"
  shows "(\<exists>e. assign_columns L1 off (Some (off + len)) V = Inl e \<and>
              assign_columns L2 off (Some (off + len)) V = Inl e) \<or>
         (\<exists>A B. assign_columns L1 off (Some (off + len)) V = Inr A \<and>
                assign_columns L2 off (Some (off + len)) V = Inr B \<and>
                agree_upto (off + len) A B)"
proof -
  from assms have s: "shape0 L1 = shape0 L2" "shape1 L1 = shape1 L2"
    and lo: "\<And>i j. j < off \<Longrightarrow> cell L1 i j = cell L2 i j"
    and out: "\<And>i j. \<not> (i < shape0 L2 \<and> j < shape1 L2) \<Longrightarrow> cell L1 i j = cell L2 i j"
    by (simp_all add: agree_upto_def)
  define lo' where "lo' = min off (shape1 L2)"
  define hi where "hi = max lo' (min (off + len) (shape1 L2))"
  define ok where "ok \<longleftrightarrow> (shape0 V = shape0 L2 \<or> shape0 V = 1) \<and> (shape1 V = hi - lo' \<or> shape1 V = 1)"
  define f where "f = (\<lambda>i j. cell V (if shape0 V = 1 then 0 else i) (if shape1 V = 1 then 0 else j - lo'))"
  have a1: "assign_columns L1 off (Some (off + len)) V =
      (if ok then Inr (L1\<lparr>cell := (\<lambda>i j. if i < shape0 L2 \<and> lo' \<le> j \<and> j < hi then f i j else cell L1 i j)\<rparr>)
       else Inl (ValueError ''could not broadcast input array''))"
    by (simp only: assign_columns_def Let_def s lo'_def hi_def ok_def f_def option.case)
  have a2: "assign_columns L2 off (Some (off + len)) V =
      (if ok then Inr (L2\<lparr>cell := (\<lambda>i j. if i < shape0 L2 \<and> lo' \<le> j \<and> j < hi then f i j else cell L2 i j)\<rparr>)
       else Inl (ValueError ''could not broadcast input array''))"
    by (simp only: assign_columns_def Let_def lo'_def hi_def ok_def f_def option.case)
  show ?thesis
  proof (cases ok)
    case False
    with a1 a2 show ?thesis by simp
  next
    case True
    have "(if i < shape0 L2 \<and> lo' \<le> j \<and> j < hi then f i j else cell L1 i j)
        = (if i < shape0 L2 \<and> lo' \<le> j \<and> j < hi then f i j else cell L2 i j)"
      if "j < off + len \<or> \<not> (i < shape0 L2 \<and> j < shape1 L2)" for i j
    proof (cases "i < shape0 L2 \<and> lo' \<le> j \<and> j < hi")
      case True
      then show ?thesis by simp
    next
      case False
      have "cell L1 i j = cell L2 i j"
      proof (cases "i < shape0 L2 \<and> j < shape1 L2")
        case False
        then show ?thesis by (rule out)
      next
        case True
        with that have "j < off + len" by simp
        with True False have "j < off"
          by (auto simp add: lo'_def hi_def min_def max_def split: if_splits)
        then show ?thesis by (rule lo)
      qed
      with False show ?thesis by auto
    qed
    with True a1 a2 s show ?thesis
      by (simp add: agree_upto_def)
  qed
qed

lemma transform_loop_agree:
  assumes "agree_upto off L1 L2"
  shows "(\<exists>e. transform_loop solve X bs off L1 = Inl e \<and>
              transform_loop solve X bs off L2 = Inl e) \<or>
         (\<exists>A B. transform_loop solve X bs off L1 = Inr (off + sum_list (map shape0 bs), A) \<and>
                transform_loop solve X bs off L2 = Inr (off + sum_list (map shape0 bs), B) \<and>
                agree_upto (off + sum_list (map shape0 bs)) A B \<and> shape1 A = shape1 L1)"
  using assms
proof (induction bs arbitrary: off L1 L2)
  case Nil
  then show ?case by simp
next
  case (Cons b bs)
  show ?case
  proof (cases "solve (T b) (T X)")
    case (Inl e)
    then show ?thesis by simp
  next
    case (Inr V)
    from assign_columns_agree [OF Cons.prems, where len = "shape0 b" and V = V]
    consider (err) e where
        "assign_columns L1 off (Some (off + shape0 b)) V = Inl e"
        "assign_columns L2 off (Some (off + shape0 b)) V = Inl e"
      | (ok) A B where
        "assign_columns L1 off (Some (off + shape0 b)) V = Inr A"
        "assign_columns L2 off (Some (off + shape0 b)) V = Inr B"
        "agree_upto (off + shape0 b) A B"
      by blast
    then show ?thesis
    proof cases
      case err
      with Inr show ?thesis by simp
    next
      case ok
      from ok(1) have sA: "shape1 A = shape1 L1" by (simp add: assign_columns_shape)
      from Cons.IH [OF ok(3)] ok(1,2) Inr sA
      show ?thesis by (simp add: add.assoc)
    qed
  qed
qed

lemma assign_tail_agree:
  assumes "agree_upto off L1 L2"
  shows "assign_columns L1 off None V = assign_columns L2 off None V"
proof -
  from assms have s: "shape0 L1 = shape0 L2" "shape1 L1 = shape1 L2"
    and lo: "\<And>i j. j < off \<Longrightarrow> cell L1 i j = cell L2 i j"
    and out: "\<And>i j. \<not> (i < shape0 L2 \<and> j < shape1 L2) \<Longrightarrow> cell L1 i j = cell L2 i j"
    by (simp_all add: agree_upto_def)
  have "(if i < shape0 L2 \<and> min off (shape1 L2) \<le> j \<and> j < shape1 L2 then f i j else cell L1 i j)
      = (if i < shape0 L2 \<and> min off (shape1 L2) \<le> j \<and> j < shape1 L2 then f i j else cell L2 i j)"
    for f :: "nat \<Rightarrow> nat \<Rightarrow> real" and i j
  proof (cases "i < shape0 L2 \<and> j < shape1 L2")
    case False
    with out [of i j] show ?thesis by auto
  next
    case True
    show ?thesis
    proof (cases "j < off")
      case True
      with lo [of j i] show ?thesis by simp
    next
      case False
      with True show ?thesis by simp
    qed
  qed
  then have "(\<lambda>i j. if i < shape0 L2 \<and> min off (shape1 L2) \<le> j \<and> j < shape1 L2 then f i j else cell L1 i j)
      = (\<lambda>i j. if i < shape0 L2 \<and> min off (shape1 L2) \<le> j \<and> j < shape1 L2 then f i j else cell L2 i j)"
    for f :: "nat \<Rightarrow> nat \<Rightarrow> real"
    by (simp add: fun_eq_iff)
  moreover from assms have "L1\<lparr>cell := g\<rparr> = L2\<lparr>cell := g\<rparr>" for g
    by (simp add: agree_upto_def)
  ultimately show ?thesis using s
    by (simp add: assign_columns_def Let_def)
qed

lemma agree_all_eq:
  assumes "agree_upto off L1 L2" and "shape1 L1 \<le> off"
  shows "L1 = L2"
proof -
  from assms(1) have lo: "\<And>i j. j < off \<Longrightarrow> cell L1 i j = cell L2 i j"
    and out: "\<And>i j. \<not> (i < shape0 L1 \<and> j < shape1 L1) \<Longrightarrow> cell L1 i j = cell L2 i j"
    by (simp_all add: agree_upto_def)
  have "cell L1 i j = cell L2 i j" for i j
  proof (cases "j < off")
    case True
    then show ?thesis by (rule lo)
  next
    case False
    with assms(2) have "\<not> (i < shape0 L1 \<and> j < shape1 L1)" by simp
    then show ?thesis by (rule out)
  qed
  then have "cell L1 = cell L2" by (simp add: fun_eq_iff)
  with assms(1) show ?thesis by (simp add: agree_upto_def)
qed

text \<open>
  The general fact: the result does not depend on the buffer when the identity block is
  written or the bases cover all \<^verbatim>\<open>n_loadings_\<close> columns.
\<close>

lemma transform_junk_independent:
  assumes "bases self = BasisList ms" and "n_loadings_attr self = Some nl"
    and "identity self \<or> nl \<le> sum_list (map shape0 ms)"
  shows "MultiProjectionTransformer_transform solve junk1 self X confounds
       = MultiProjectionTransformer_transform solve junk2 self X confounds"
proof -
  let ?L1 = "np_empty junk1 (shape0 X) nl" and ?L2 = "np_empty junk2 (shape0 X) nl"
  have nl: "shape1 ?L1 = nl" by (simp add: np_empty_def)
  have ag0: "agree_upto 0 ?L1 ?L2" by (rule np_empty_agree)
  from transform_loop_agree [OF ag0, where bs = ms and solve = solve and X = X]
  consider (err) e where
      "transform_loop solve X ms 0 ?L1 = Inl e" "transform_loop solve X ms 0 ?L2 = Inl e"
    | (ok) A B where
      "transform_loop solve X ms 0 ?L1 = Inr (sum_list (map shape0 ms), A)"
      "transform_loop solve X ms 0 ?L2 = Inr (sum_list (map shape0 ms), B)"
      "agree_upto (sum_list (map shape0 ms)) A B" "shape1 A = nl"
    using nl by auto
  then show ?thesis
  proof cases
    case err
    with assms(1,2) show ?thesis
      by (simp add: MultiProjectionTransformer_transform_def)
  next
    case ok
    show ?thesis
    proof (cases "identity self")
      case True
      with assms(1,2) ok(1,2) assign_tail_agree [OF ok(3), of X] show ?thesis
        by (simp add: MultiProjectionTransformer_transform_def)
    next
      case False
      with assms(3) ok(4) have "shape1 A \<le> sum_list (map shape0 ms)" by simp
      from agree_all_eq [OF ok(3) this] have "A = B" .
      with False assms(1,2) ok(1,2) show ?thesis
        by (simp add: MultiProjectionTransformer_transform_def)
    qed
  qed
qed

text \<open>What a completed \<^verbatim>\<open>fit\<close> leaves: a list of bases and their count of loadings.\<close>

lemma fit_state:
  assumes "MultiProjectionTransformer_fit self0 = Inr self"
  shows "\<exists>ms. bases self = BasisList ms \<and> identity self = identity self0 \<and>
           bases self = bases self0 \<and>
           (\<exists>n0. n_loadings_attr self
               = Some (sum_list (map shape0 ms) + (if identity self then n0 else 0)))"
  using assms
  by (auto simp add: MultiProjectionTransformer_fit_def Let_def
      split: option.splits bases_val.splits list.splits if_splits)

lemma example_projection_fit:
  "MultiProjectionTransformer_fit example_projection = Inr example_fitted_projection"
  by (simp add: MultiProjectionTransformer_fit_def example_projection_def
      MultiProjectionTransformer_init_def example_fitted_projection_def identity2_def)

text \<open>
  C6. On a transformer as \<^verbatim>\<open>fit\<close> leaves it, two calls of \<^verbatim>\<open>transform\<close> with the same
  bases, the same identity flag and the same samples give the same result, loadings or
  exception, whatever the uninitialised buffer of \<^verbatim>\<open>np.empty\<close> held in each call:
  every column of the buffer is overwritten before it is returned.
\<close>

theorem C6_transform_deterministic:
  assumes "MultiProjectionTransformer_fit self0 = Inr self"
  shows "MultiProjectionTransformer_transform solve junk1 self X confounds
       = MultiProjectionTransformer_transform solve junk2 self X confounds"
proof -
  from fit_state [OF assms] obtain ms n0 where
    b: "bases self = BasisList ms" and
    n: "n_loadings_attr self = Some (sum_list (map shape0 ms) + (if identity self then n0 else 0))"
    by blast
  have "identity self \<or>
        sum_list (map shape0 ms) + (if identity self then n0 else 0) \<le> sum_list (map shape0 ms)"
    by simp
  from transform_junk_independent [OF b n this] show ?thesis .
qed

theorem C6_witness:
  "MultiProjectionTransformer_fit example_projection = Inr example_fitted_projection \<and>
   (\<exists>L. MultiProjectionTransformer_transform example_solve (\<lambda>i j. 0)
            example_fitted_projection example_X PyNone = Inr L \<and>
         MultiProjectionTransformer_transform example_solve (\<lambda>i j. 7)
            example_fitted_projection example_X PyNone = Inr L \<and>
         shape0 L = 2 \<and> shape1 L = 2 \<and> cell L 1 1 = 2 \<and> cell L 0 1 = 0)"
proof -
  note f = example_projection_fit
  have r: "\<exists>L. MultiProjectionTransformer_transform example_solve (\<lambda>i j. 0)
            example_fitted_projection example_X PyNone = Inr L \<and>
            shape0 L = 2 \<and> shape1 L = 2 \<and> cell L 1 1 = 2 \<and> cell L 0 1 = 0"
    by (simp add: MultiProjectionTransformer_transform_def example_fitted_projection_def
        identity2_def example_solve_def example_X_def T_def np_empty_def assign_columns_def
        Let_def)
  from C6_transform_deterministic [OF f, of example_solve "\<lambda>i j. 0" example_X PyNone "\<lambda>i j. 7"]
    f r show ?thesis by auto
qed

text \<open>
  C7. For every sample, dictionary and \<open>alpha\<close>, \<^verbatim>\<open>solve\<close> with a mask that is false
  everywhere returns the zero vector of length \<open>k\<close>, the number of rows of the dictionary,
  and no error.
\<close>

theorem C7_all_zero_mask_zero_code:
  assumes "list_all (\<lambda>b. \<not> b) msk"
  shows "CodeSolver_solve ridge sample (Some msk) dictionary' alpha
       = Inr (replicate (length dictionary') 0)"
  using assms by (simp add: CodeSolver_solve_def)

theorem C7_witness:
  "list_all (\<lambda>b. \<not> b) [False, False] \<and>
   CodeSolver_solve (\<lambda>s m d a. replicate (length d) 1) [1, 2, 3] (Some [False, False])
     [[1, 0], [0, 1], [1, 1]] (1 / 10) = Inr [0, 0, 0]"
proof -
  have a: "list_all (\<lambda>b. \<not> b) [False, False]" by simp
  from C7_all_zero_mask_zero_code [OF a, of "\<lambda>s m d a. replicate (length d) 1" "[1, 2, 3]"
      "[[1, 0], [0, 1], [1, 1]]" "1 / 10"] a
  show ?thesis by (simp add: numeral_3_eq_3)
qed

lemma sum_list_scaled: "(\<Sum>x\<leftarrow>v. f x / c) = (\<Sum>x\<leftarrow>v. f x) / c" for c :: real
  by (induction v) (simp_all add: add_divide_distrib)

lemma norm2_project_row: "norm2 (project_row v) \<le> 1"
proof (cases "norm2 v \<le> 1")
  case True
  then show ?thesis by (simp add: project_row_def)
next
  case False
  define n where "n = norm2 v"
  define S where "S = (\<Sum>x\<leftarrow>v. x * x)"
  from False have pos: "0 < n" by (simp add: n_def)
  have n: "n = sqrt S" by (simp add: n_def S_def norm2_def)
  have "norm2 (map (\<lambda>x. x / n) v) = sqrt (S / (n * n))"
    by (simp add: norm2_def comp_def sum_list_scaled S_def)
  also have "\<dots> = sqrt S / n"
    using pos by (simp add: real_sqrt_divide real_sqrt_mult)
  also have "\<dots> = 1" using pos n by simp
  finally have "norm2 (map (\<lambda>x. x / n) v) = 1" .
  with False show ?thesis by (simp add: project_row_def n_def)
qed

text \<open>
  C8. After every \<^verbatim>\<open>update\<close>, whatever the state before and whatever the descent
  computed, each row of the dictionary has norm at most one.
\<close>

theorem C8_rows_bounded_after_update:
  "list_all (\<lambda>row. norm2 row \<le> 1)
     (dictionary (DictionaryUpdater_update accumulate descend st code sample subset' t))"
  by (simp add: DictionaryUpdater_update_def list_all_iff norm2_project_row split: prod.splits)

end
